theory Spec2Isabelle
  imports Main
begin

section \<open>Python values\<close>

text \<open>
  The handler of \<^verbatim>\<open>src/lambda/python/index.py\<close> builds its results from Python
  dictionaries, strings, integers, lists and \<^verbatim>\<open>None\<close>. A dictionary keeps the order in
  which its keys were inserted, so it is an association list. Numbers held by the record
  store are modelled as integers.
\<close>

datatype jval =
    JNull
  | JStr string
  | JInt int
  | JList "jval list"
  | JObj "(string \<times> jval) list"

type_synonym 'v dict = "(string \<times> 'v) list"

text \<open>The exceptions the code can raise; all of them are subclasses of \<^verbatim>\<open>Exception\<close>.\<close>

datatype error = AttributeError | ValueError | KeyError | TypeError | ClientError

text \<open>\<^verbatim>\<open>d.get(k)\<close>: the value stored under \<open>k\<close>, \<open>None\<close> when the key is absent.\<close>

fun dict_get :: "'v dict \<Rightarrow> string \<Rightarrow> 'v option" where
  "dict_get [] k = None"
| "dict_get ((k', v) # d) k = (if k' = k then Some v else dict_get d k)"

text \<open>
  \<^verbatim>\<open>d[k] = v\<close>: an existing key keeps its position and takes the new value, a new key goes
  to the end.
\<close>

fun dict_set :: "'v dict \<Rightarrow> string \<Rightarrow> 'v \<Rightarrow> 'v dict" where
  "dict_set [] k v = [(k, v)]"
| "dict_set ((k', v') # d) k v = (if k' = k then (k', v) # d else (k', v') # dict_set d k v)"

text \<open>\<^verbatim>\<open>d.update(other)\<close>, also the effect of \<^verbatim>\<open>**other\<close> inside a dictionary display.\<close>

fun dict_update :: "'v dict \<Rightarrow> 'v dict \<Rightarrow> 'v dict" where
  "dict_update d [] = d"
| "dict_update d ((k, v) # other) = dict_update (dict_set d k v) other"

text \<open>A dictionary display \<^verbatim>\<open>{k1: v1, k2: v2, ...}\<close> inserts its entries from left to right.\<close>

definition dict_of :: "'v dict \<Rightarrow> 'v dict" where
  "dict_of kvs = dict_update [] kvs"

text \<open>An optional string as a Python value, and as \<^verbatim>\<open>str()\<close> or an f-string prints it.\<close>

fun of_opt :: "string option \<Rightarrow> jval" where
  "of_opt None = JNull"
| "of_opt (Some s) = JStr s"

fun py_str :: "string option \<Rightarrow> string" where
  "py_str None = ''None''"
| "py_str (Some s) = s"

text \<open>Truth value testing.\<close>

fun truthy :: "jval \<Rightarrow> bool" where
  "truthy JNull = False"
| "truthy (JStr s) = (s \<noteq> [])"
| "truthy (JInt i) = (i \<noteq> 0)"
| "truthy (JList xs) = (xs \<noteq> [])"
| "truthy (JObj d) = (d \<noteq> [])"

text \<open>\<^verbatim>\<open>x[k]\<close> with a string key: only a dictionary supports it, and the key must be there.\<close>

fun subscript :: "jval \<Rightarrow> string \<Rightarrow> error + jval" where
  "subscript (JObj d) k = (case dict_get d k of None \<Rightarrow> Inl KeyError | Some v \<Rightarrow> Inr v)"
| "subscript _ k = Inl TypeError"

section \<open>Strings and decimal numerals\<close>

text \<open>The decimal digit \<open>n\<close> (below ten) as a character.\<close>

definition digit_char :: "nat \<Rightarrow> char" where
  "digit_char n = ''0123456789'' ! n"

fun str_nat :: "nat \<Rightarrow> string" where
  "str_nat n = (if n < 10 then [digit_char n] else str_nat (n div 10) @ [digit_char (n mod 10)])"

declare str_nat.simps [simp del]

text \<open>\<^verbatim>\<open>"%0wd" % n\<close>: at least \<open>w\<close> digits, padded with zeros on the left.\<close>

definition zero_pad :: "nat \<Rightarrow> nat \<Rightarrow> string" where
  "zero_pad w n = replicate (w - length (str_nat n)) (CHR ''0'') @ str_nat n"

definition digit_val :: "char \<Rightarrow> nat option" where
  "digit_val c =
     (let n = (of_char c :: nat) in if 48 \<le> n \<and> n \<le> 57 then Some (n - 48) else None)"

text \<open>A string made of decimal digits only, as a number (\<open>None\<close> for anything else).\<close>

fun parse_digits_acc :: "nat \<Rightarrow> string \<Rightarrow> nat option" where
  "parse_digits_acc acc [] = Some acc"
| "parse_digits_acc acc (c # cs) =
     (case digit_val c of None \<Rightarrow> None | Some v \<Rightarrow> parse_digits_acc (10 * acc + v) cs)"

definition parse_digits :: "string \<Rightarrow> nat option" where
  "parse_digits s = (if s = [] then None else parse_digits_acc 0 s)"

text \<open>\<^verbatim>\<open>s.replace("Z", "+00:00")\<close>: every occurrence of the letter is replaced.\<close>

definition replace_Z :: "string \<Rightarrow> string" where
  "replace_Z s = concat (map (\<lambda>c. if c = CHR ''Z'' then ''+00:00'' else [c]) s)"

text \<open>\<^verbatim>\<open>s.lower()\<close> on ASCII text.\<close>

definition lower :: "string \<Rightarrow> string" where
  "lower s = map (\<lambda>c. let n = (of_char c :: nat) in
                        if 65 \<le> n \<and> n \<le> 90 then char_of (n + 32) else c) s"

text \<open>The order of the record store on strings: byte by byte, a prefix first.\<close>

fun str_le :: "string \<Rightarrow> string \<Rightarrow> bool" where
  "str_le [] t = True"
| "str_le (c # s) [] = False"
| "str_le (c # s) (d # t) = (if c = d then str_le s t else (of_char c :: nat) < of_char d)"

section \<open>Dates and times\<close>

text \<open>
  A \<^verbatim>\<open>datetime\<close> object: the calendar fields and, for an aware object, the offset of its
  time zone from UTC in microseconds.
\<close>

record datetime =
  year :: nat
  month :: nat
  day :: nat
  hour :: nat
  minute :: nat
  second :: nat
  microsecond :: nat
  tzinfo :: "int option"

definition is_leap :: "nat \<Rightarrow> bool" where
  "is_leap y = (y mod 4 = 0 \<and> (0 < y mod 100 \<or> y mod 400 = 0))"

definition days_in_month :: "nat \<Rightarrow> nat \<Rightarrow> nat" where
  "days_in_month y m =
     (if m = 2 then (if is_leap y then 29 else 28)
      else if m = 4 \<or> m = 6 \<or> m = 9 \<or> m = 11 then 30 else 31)"

text \<open>
  The checks of the \<^verbatim>\<open>datetime\<close> constructor; a time zone offset must lie strictly
  between minus and plus 24 hours.
\<close>

definition valid_datetime :: "datetime \<Rightarrow> bool" where
  "valid_datetime dt =
     (1 \<le> year dt \<and> year dt \<le> 9999 \<and> 1 \<le> month dt \<and> month dt \<le> 12 \<and>
      1 \<le> day dt \<and> day dt \<le> days_in_month (year dt) (month dt) \<and>
      hour dt < 24 \<and> minute dt < 60 \<and> second dt < 60 \<and> microsecond dt < 1000000 \<and>
      (case tzinfo dt of None \<Rightarrow> True
       | Some off \<Rightarrow> - 86400000000 < off \<and> off < 86400000000))"

text \<open>\<open>YYYY-MM-DD\<close>\<close>

definition parse_isoformat_date :: "string \<Rightarrow> (nat \<times> nat \<times> nat) option" where
  "parse_isoformat_date ds =
     (if length ds = 10 \<and> take 1 (drop 4 ds) = ''-'' \<and> take 1 (drop 7 ds) = ''-'' then
        (case (parse_digits (take 4 ds), parse_digits (take 2 (drop 5 ds)),
               parse_digits (drop 8 ds)) of
           (Some y, Some m, Some d) \<Rightarrow> Some (y, m, d)
         | _ \<Rightarrow> None)
      else None)"

text \<open>\<open>HH[:MM[:SS[.fff[fff]]]]\<close>: hours, minutes, seconds, microseconds.\<close>

definition parse_hh_mm_ss_ff :: "string \<Rightarrow> (nat \<times> nat \<times> nat \<times> nat) option" where
  "parse_hh_mm_ss_ff t =
     (let n = length t;
          hh = parse_digits (take 2 t);
          mm = parse_digits (take 2 (drop 3 t));
          ss = parse_digits (take 2 (drop 6 t));
          ff = parse_digits (drop 9 t);
          c1 = (take 1 (drop 2 t) = '':'');
          c2 = (take 1 (drop 5 t) = '':'');
          c3 = (take 1 (drop 8 t) = ''.'')
      in if n = 2 then
           (case hh of Some h \<Rightarrow> Some (h, 0, 0, 0) | None \<Rightarrow> None)
         else if n = 5 \<and> c1 then
           (case (hh, mm) of (Some h, Some m) \<Rightarrow> Some (h, m, 0, 0) | _ \<Rightarrow> None)
         else if n = 8 \<and> c1 \<and> c2 then
           (case (hh, mm, ss) of (Some h, Some m, Some s) \<Rightarrow> Some (h, m, s, 0) | _ \<Rightarrow> None)
         else if (n = 12 \<or> n = 15) \<and> c1 \<and> c2 \<and> c3 then
           (case (hh, mm, ss, ff) of
              (Some h, Some m, Some s, Some f) \<Rightarrow>
                 Some (h, m, s, if n = 12 then f * 1000 else f)
            | _ \<Rightarrow> None)
         else None)"

text \<open>
  The time zone suffix \<open>+HH:MM[:SS[.ffffff]]\<close> (or with a minus sign), as an offset in
  microseconds.
\<close>

definition parse_tz :: "string \<Rightarrow> int option" where
  "parse_tz z =
     (case z of
        [] \<Rightarrow> None
      | sg # rest \<Rightarrow>
          if (sg = CHR ''+'' \<or> sg = CHR ''-'') \<and>
             (length rest = 5 \<or> length rest = 8 \<or> length rest = 15) then
            (case parse_hh_mm_ss_ff rest of
               None \<Rightarrow> None
             | Some (h, m, s, f) \<Rightarrow>
                 let off = int ((h * 3600 + m * 60 + s) * 1000000 + f)
                 in Some (if sg = CHR ''-'' then - off else off))
          else None)"

definition is_sign :: "char \<Rightarrow> bool" where
  "is_sign c = (c = CHR ''+'' \<or> c = CHR ''-'')"

text \<open>
  A parser for the strings \<open>YYYY-MM-DD[*HH[:MM[:SS[.fff[fff]]]][+HH:MM[:SS[.ffffff]]]]\<close>,
  where \<open>*\<close> is any single character: the formats that \<^verbatim>\<open>isoformat\<close> prints. Any
  other string, and any field out of range, gives \<^verbatim>\<open>ValueError\<close>. Every version of
  \<^verbatim>\<open>datetime.fromisoformat\<close> parses these strings, with this result; the versions from
  Python 3.11 on parse further strings, which this parser refuses. It is the parser of the
  examples, and one instance of the parser that a run takes from its interpreter.
\<close>

definition strict_fromisoformat :: "string \<Rightarrow> error + datetime" where
  "strict_fromisoformat s =
     (case parse_isoformat_date (take 10 s) of
        None \<Rightarrow> Inl ValueError
      | Some (y, mo, d) \<Rightarrow>
          let tstr = drop 11 s;
              timestr = takeWhile (\<lambda>c. \<not> is_sign c) tstr;
              tzstr = dropWhile (\<lambda>c. \<not> is_sign c) tstr;
              tm = (if length s = 10 then Some (0, 0, 0, 0)
                    else if length s = 11 then None
                    else parse_hh_mm_ss_ff timestr);
              tz = (if tzstr = [] then Some None
                    else (case parse_tz tzstr of None \<Rightarrow> None | Some off \<Rightarrow> Some (Some off)))
          in (case (tm, tz) of
                (Some (h, mi, sec, us), Some off) \<Rightarrow>
                  let dt = \<lparr>year = y, month = mo, day = d, hour = h, minute = mi, second = sec,
                            microsecond = us, tzinfo = off\<rparr>
                  in if valid_datetime dt then Inr dt else Inl ValueError
              | _ \<Rightarrow> Inl ValueError))"

text \<open>The offset as \<^verbatim>\<open>isoformat\<close> prints it: sign, hours and minutes, then the seconds
  and the microseconds when they are not zero.\<close>

definition format_offset :: "int option \<Rightarrow> string" where
  "format_offset off =
     (case off of
        None \<Rightarrow> []
      | Some o1 \<Rightarrow>
          let sg = (if o1 < 0 then ''-'' else ''+'');
              a = nat \<bar>o1\<bar>;
              us = a mod 1000000;
              secs = a div 1000000;
              hh = secs div 3600;
              mm = (secs mod 3600) div 60;
              ss = secs mod 60
          in sg @ zero_pad 2 hh @ '':'' @ zero_pad 2 mm @
             (if 0 < ss \<or> 0 < us then
                '':'' @ zero_pad 2 ss @ (if 0 < us then ''.'' @ zero_pad 6 us else [])
              else []))"

definition format_time :: "datetime \<Rightarrow> string" where
  "format_time dt =
     zero_pad 2 (hour dt) @ '':'' @ zero_pad 2 (minute dt) @ '':'' @ zero_pad 2 (second dt) @
     (if 0 < microsecond dt then ''.'' @ zero_pad 6 (microsecond dt) else [])"

definition format_date :: "datetime \<Rightarrow> string" where
  "format_date dt =
     zero_pad 4 (year dt) @ ''-'' @ zero_pad 2 (month dt) @ ''-'' @ zero_pad 2 (day dt)"

text \<open>\<^verbatim>\<open>dt.isoformat(sep)\<close>; \<^verbatim>\<open>str(dt)\<close> is \<^verbatim>\<open>dt.isoformat(' ')\<close>.\<close>

definition isoformat_sep :: "string \<Rightarrow> datetime \<Rightarrow> string" where
  "isoformat_sep sep dt = format_date dt @ sep @ format_time dt @ format_offset (tzinfo dt)"

definition isoformat :: "datetime \<Rightarrow> string" where
  "isoformat dt = isoformat_sep ''T'' dt"

text \<open>\<^verbatim>\<open>dt.replace(hour=i)\<close>: the constructor checks the new hour.\<close>

definition replace_hour :: "datetime \<Rightarrow> nat \<Rightarrow> error + datetime" where
  "replace_hour dt i = (if i < 24 then Inr (dt\<lparr>hour := i\<rparr>) else Inl ValueError)"

text \<open>
  \<^verbatim>\<open>dt.strftime("%Y-%m-%d %H:%M:%S")\<close>. The C library prints the year of \<open>%Y\<close> without
  padding.
\<close>

definition strftime_ymd_hms :: "datetime \<Rightarrow> string" where
  "strftime_ymd_hms dt =
     str_nat (year dt) @ ''-'' @ zero_pad 2 (month dt) @ ''-'' @ zero_pad 2 (day dt) @ '' '' @
     zero_pad 2 (hour dt) @ '':'' @ zero_pad 2 (minute dt) @ '':'' @ zero_pad 2 (second dt)"

text \<open>
  \<^verbatim>\<open>dt.strftime("%A, %B %d, %Y, %I:%M:%S %p %Z")\<close> for a naive object, whose \<open>%Z\<close>
  is empty. The day of the week comes from the proleptic Gregorian ordinal of the date,
  Monday being day 0.
\<close>

definition days_before_year :: "nat \<Rightarrow> nat" where
  "days_before_year y =
     (let p = y - 1 in p * 365 + p div 4 + p div 400 - p div 100)"

definition days_before_month :: "nat \<Rightarrow> nat \<Rightarrow> nat" where
  "days_before_month y m = sum_list (map (days_in_month y) [1..<m])"

definition toordinal :: "datetime \<Rightarrow> nat" where
  "toordinal dt = days_before_year (year dt) + days_before_month (year dt) (month dt) + day dt"

definition weekday :: "datetime \<Rightarrow> nat" where
  "weekday dt = (toordinal dt + 6) mod 7"

definition day_name :: "nat \<Rightarrow> string" where
  "day_name d =
     (if d < 7 then [''Monday'', ''Tuesday'', ''Wednesday'', ''Thursday'', ''Friday'',
                     ''Saturday'', ''Sunday''] ! d
      else [])"

definition month_name :: "nat \<Rightarrow> string" where
  "month_name m =
     (if 1 \<le> m \<and> m \<le> 12 then
        [''January'', ''February'', ''March'', ''April'', ''May'', ''June'', ''July'',
         ''August'', ''September'', ''October'', ''November'', ''December''] ! (m - 1)
      else [])"

definition strftime_long :: "datetime \<Rightarrow> string" where
  "strftime_long dt =
     day_name (weekday dt) @ '', '' @ month_name (month dt) @ '' '' @ zero_pad 2 (day dt) @
     '', '' @ str_nat (year dt) @ '', '' @
     zero_pad 2 (if hour dt mod 12 = 0 then 12 else hour dt mod 12) @ '':'' @
     zero_pad 2 (minute dt) @ '':'' @ zero_pad 2 (second dt) @ '' '' @
     (if hour dt < 12 then ''AM'' else ''PM'') @ '' ''"

text \<open>
  What a run takes from its interpreter. The system clock, read by \<^verbatim>\<open>datetime.now()\<close>:
  the local wall-clock time, which is a naive object, and the whole seconds since the epoch
  that \<^verbatim>\<open>int(now.timestamp())\<close> gives for it. And \<^verbatim>\<open>datetime.fromisoformat\<close>: the
  strings it accepts depend on the version of the interpreter (up to Python 3.10 the
  formats that \<^verbatim>\<open>isoformat\<close> prints, from Python 3.11 on most of ISO 8601), so the
  function is a field of the runtime; it maps a string to the object it denotes or to the
  exception it raises.
\<close>

record runtime =
  wall :: datetime
  epoch_seconds :: nat
  fromisoformat :: "string \<Rightarrow> error + datetime"

definition datetime_now :: "runtime \<Rightarrow> datetime" where
  "datetime_now rt = (wall rt)\<lparr>tzinfo := None\<rparr>"


section \<open>The record store\<close>

text \<open>
  The three tables are an external service; the code reaches them through
  \<^verbatim>\<open>get_item\<close>, \<^verbatim>\<open>put_item\<close>, \<^verbatim>\<open>update_item\<close>, \<^verbatim>\<open>delete_item\<close> and \<^verbatim>\<open>query\<close>. A table is
  the list of its items, each item a dictionary that carries its own key attribute. The
  store gives no order among the items of a query; the list order stands for whichever
  order it answers in. The value of a key, of an index key or of a key condition must be
  a string that is not empty: the store rejects any other value (Python's \<^verbatim>\<open>None\<close> for a
  missing parameter, the empty string) with a \<^verbatim>\<open>ClientError\<close>.
\<close>

type_synonym item = "jval dict"
type_synonym table = "item list"

record store =
  customers_table :: table
  tradesperson_table :: table
  bookings_table :: table

fun valid_key :: "jval \<Rightarrow> bool" where
  "valid_key (JStr s) = (s \<noteq> [])"
| "valid_key _ = False"

text \<open>\<^verbatim>\<open>d.get(k)\<close> and \<^verbatim>\<open>d.get(k, default)\<close> on a dictionary of Python values.\<close>

definition jget_default :: "jval dict \<Rightarrow> string \<Rightarrow> jval \<Rightarrow> jval" where
  "jget_default d k dflt = (case dict_get d k of None \<Rightarrow> dflt | Some v \<Rightarrow> v)"

definition jget :: "jval dict \<Rightarrow> string \<Rightarrow> jval" where
  "jget d k = jget_default d k JNull"

definition has_key :: "string \<Rightarrow> jval \<Rightarrow> item \<Rightarrow> bool" where
  "has_key pk k it = (dict_get it pk = Some k)"

text \<open>\<^verbatim>\<open>table.get_item(Key={pk: k})\<close>: the item, when the response has an \<^verbatim>\<open>"Item"\<close>.\<close>

definition get_item :: "string \<Rightarrow> table \<Rightarrow> jval \<Rightarrow> error + item option" where
  "get_item pk tbl k =
     (if valid_key k then Inr (find (has_key pk k) tbl) else Inl ClientError)"

text \<open>
  \<^verbatim>\<open>table.put_item(Item=it)\<close>: the item replaces the one with the same key. The key
  attribute must be a string that is not empty, and so must every index key attribute the
  item has.
\<close>

definition put_item :: "string \<Rightarrow> string list \<Rightarrow> table \<Rightarrow> item \<Rightarrow> error + table" where
  "put_item pk idx tbl it =
     (case dict_get it pk of
        None \<Rightarrow> Inl ClientError
      | Some k \<Rightarrow>
          if valid_key k \<and>
             list_all (\<lambda>a. case dict_get it a of None \<Rightarrow> True | Some v \<Rightarrow> valid_key v) idx
          then Inr (filter (\<lambda>x. \<not> has_key pk k x) tbl @ [it])
          else Inl ClientError)"

text \<open>\<^verbatim>\<open>table.delete_item(Key={pk: k})\<close>\<close>

definition delete_item :: "string \<Rightarrow> table \<Rightarrow> jval \<Rightarrow> error + table" where
  "delete_item pk tbl k =
     (if valid_key k then Inr (filter (\<lambda>x. \<not> has_key pk k x) tbl) else Inl ClientError)"

text \<open>
  \<^verbatim>\<open>table.update_item(Key={pk: k}, UpdateExpression="set a = :v")\<close>: the attribute is
  set on the item with that key; the store creates the item when there is none.
\<close>

definition update_item :: "string \<Rightarrow> table \<Rightarrow> jval \<Rightarrow> string \<Rightarrow> jval \<Rightarrow> error + table" where
  "update_item pk tbl k a v =
     (if valid_key k then
        (case find (has_key pk k) tbl of
           None \<Rightarrow> Inr (tbl @ [dict_of [(pk, k), (a, v)]])
         | Some old \<Rightarrow> Inr (map (\<lambda>x. if has_key pk k x then dict_set x a v else x) tbl))
      else Inl ClientError)"

text \<open>
  Key conditions, as \<^verbatim>\<open>Key(a).eq(v)\<close>, \<^verbatim>\<open>Key(a).between(lo, hi)\<close> (both bounds
  included) and \<^verbatim>\<open>&\<close> build them. The store rejects a condition with an operand
  that is no valid key value, and a \<^verbatim>\<open>between\<close> whose lower bound sorts above its upper
  bound.
\<close>

datatype key_condition =
    KeyEq string jval
  | KeyBetween string jval jval
  | KeyAnd key_condition key_condition

fun bounds_ordered :: "jval \<Rightarrow> jval \<Rightarrow> bool" where
  "bounds_ordered (JStr lo) (JStr hi) = str_le lo hi"
| "bounds_ordered _ _ = False"

fun cond_valid :: "key_condition \<Rightarrow> bool" where
  "cond_valid (KeyEq a v) = valid_key v"
| "cond_valid (KeyBetween a lo hi) = (valid_key lo \<and> valid_key hi \<and> bounds_ordered lo hi)"
| "cond_valid (KeyAnd c1 c2) = (cond_valid c1 \<and> cond_valid c2)"

fun between :: "jval \<Rightarrow> jval \<Rightarrow> jval \<Rightarrow> bool" where
  "between (JStr s) (JStr lo) (JStr hi) = (str_le lo s \<and> str_le s hi)"
| "between _ _ _ = False"

fun cond_holds :: "key_condition \<Rightarrow> item \<Rightarrow> bool" where
  "cond_holds (KeyEq a v) it = (dict_get it a = Some v)"
| "cond_holds (KeyBetween a lo hi) it =
     (case dict_get it a of None \<Rightarrow> False | Some s \<Rightarrow> between s lo hi)"
| "cond_holds (KeyAnd c1 c2) it = (cond_holds c1 it \<and> cond_holds c2 it)"

text \<open>\<^verbatim>\<open>table.query(IndexName=..., KeyConditionExpression=c)\<close>: the \<^verbatim>\<open>"Items"\<close>.\<close>

definition query :: "table \<Rightarrow> key_condition \<Rightarrow> error + item list" where
  "query tbl c = (if cond_valid c then Inr (filter (cond_holds c) tbl) else Inl ClientError)"

section \<open>The operation handlers\<close>

text \<open>
  A handler returns the dictionary \<^verbatim>\<open>{"statusCode": ..., "body": ...}\<close> or raises. A
  handler that writes to the store returns the store as it leaves it, also when it
  raises. The parameters of a request are strings, so \<^verbatim>\<open>params.get(k)\<close> is a string or
  \<^verbatim>\<open>None\<close>.
\<close>

type_synonym response = "jval dict"

definition result :: "int \<Rightarrow> jval dict \<Rightarrow> response" where
  "result code body = dict_of [(''statusCode'', JInt code), (''body'', JObj body)]"

text \<open>\<^verbatim>\<open>s.replace("Z", "+00:00")\<close> on a value that may be \<^verbatim>\<open>None\<close>, then
  \<^verbatim>\<open>datetime.fromisoformat\<close>.\<close>

definition parse_slot :: "runtime \<Rightarrow> string option \<Rightarrow> error + datetime" where
  "parse_slot rt slot =
     (case slot of None \<Rightarrow> Inl AttributeError | Some s \<Rightarrow> fromisoformat rt (replace_Z s))"

definition search_trades_persons :: "store \<Rightarrow> string dict \<Rightarrow> error + response" where
  "search_trades_persons st params =
     (let trade = dict_get params ''trade'';
          city = dict_get params ''city''
      in case trade of
           None \<Rightarrow> Inl AttributeError
         | Some t \<Rightarrow>
             (case city of
                None \<Rightarrow> Inl AttributeError
              | Some c \<Rightarrow>
                  (case query (tradesperson_table st)
                          (KeyAnd (KeyEq ''trade'' (JStr (lower t)))
                                  (KeyEq ''city'' (JStr (lower c)))) of
                     Inl e \<Rightarrow> Inl e
                   | Inr items \<Rightarrow>
                       let trades_persons =
                             map (\<lambda>item. JObj (dict_of
                                    [(''tradesPersonId'', jget item ''tradesPersonId''),
                                     (''name'', jget item ''name''),
                                     (''trade'', jget item ''trade''),
                                     (''hourlyRate'', jget item ''hourlyRate''),
                                     (''city'', jget item ''city''),
                                     (''contactNumber'', jget item ''contactNumber'')])) items
                       in Inr (result 200 (dict_of
                                 [(''tradesPersons'', JList trades_persons),
                                  (''count'', JInt (int (length trades_persons)))])))))"

text \<open>
  The loop of \<^verbatim>\<open>check_availability\<close> over \<^verbatim>\<open>range(start_hour, end_hour)\<close>: each round
  parses the start slot again, replaces its hour and appends the slot when no booked slot
  equals it.
\<close>

fun available_loop ::
  "runtime \<Rightarrow> string \<Rightarrow> jval list \<Rightarrow> nat list \<Rightarrow> string list \<Rightarrow> error + string list"
  where
  "available_loop rt start_slot booked_slots [] available_time_slots = Inr available_time_slots"
| "available_loop rt start_slot booked_slots (i # hours) available_time_slots =
     (case fromisoformat rt (replace_Z start_slot) of
        Inl e \<Rightarrow> Inl e
      | Inr temp_date \<Rightarrow>
          (case replace_hour temp_date i of
             Inl e \<Rightarrow> Inl e
           | Inr temp_date' \<Rightarrow>
               let slot = isoformat temp_date'
               in available_loop rt start_slot booked_slots hours
                    (if JStr slot \<notin> set booked_slots then available_time_slots @ [slot]
                     else available_time_slots)))"

definition check_availability :: "runtime \<Rightarrow> store \<Rightarrow> string dict \<Rightarrow> error + response" where
  "check_availability rt st params =
     (let tradesperson_id = dict_get params ''tradesPersonId'';
          start_slot = dict_get params ''startSlot'';
          end_slot = dict_get params ''endSlot''
      in case start_slot of
           None \<Rightarrow> Inl AttributeError
         | Some start_str \<Rightarrow>
             (case fromisoformat rt (replace_Z start_str) of
                Inl e \<Rightarrow> Inl e
              | Inr start_dt \<Rightarrow>
                  (case parse_slot rt end_slot of
                     Inl e \<Rightarrow> Inl e
                   | Inr end_dt \<Rightarrow>
                       let start_hour = hour start_dt;
                           end_hour = hour end_dt
                       in (case query (bookings_table st)
                                  (KeyAnd (KeyEq ''tradesPersonId'' (of_opt tradesperson_id))
                                          (KeyBetween ''slot'' (JStr start_str) (of_opt end_slot))) of
                             Inl e \<Rightarrow> Inl e
                           | Inr items \<Rightarrow>
                               let booked_slots = map (\<lambda>item. jget item ''slot'') items
                               in (case available_loop rt start_str booked_slots
                                          [start_hour..<end_hour] [] of
                                     Inl e \<Rightarrow> Inl e
                                   | Inr available_time_slots \<Rightarrow>
                                       Inr (result 200
                                              [(''availableTimeSlots'',
                                                JList (map JStr available_time_slots))]))))))"

text \<open>\<^verbatim>\<open>s[-5:]\<close>\<close>

definition last5 :: "string \<Rightarrow> string" where
  "last5 s = drop (length s - 5) s"

definition item_or_empty :: "item option \<Rightarrow> item" where
  "item_or_empty r = (case r of None \<Rightarrow> [] | Some it \<Rightarrow> it)"

text \<open>
  Modelled from the spec: the secondary indexes of the bookings table, whose declaration
  is not part of the source (\<open>bookings by tradesperson id + slot range, bookings by
  customer id\<close>). Their key attributes are the ones the queries of the source name for
  \<^verbatim>\<open>TradesPersonIdIndex\<close> and \<^verbatim>\<open>CustomerIdIndex\<close>.
\<close>

definition bookings_index_keys :: "string list" where
  "bookings_index_keys = [''tradesPersonId'', ''slot'', ''customerId'']"

definition create_booking ::
  "runtime \<Rightarrow> store \<Rightarrow> string \<Rightarrow> string dict \<Rightarrow> (error + response) \<times> store" where
  "create_booking rt st customer_id params =
     (let tradesperson_id = dict_get params ''tradesPersonId'';
          slot = dict_get params ''slot'';
          description = dict_get params ''description'';
          booking_id = ''b'' @ last5 (str_nat (epoch_seconds rt))
      in case parse_slot rt slot of
           Inl e \<Rightarrow> (Inl e, st)
         | Inr dt \<Rightarrow>
             let booking = dict_of
                   [(''bookingId'', JStr booking_id),
                    (''tradesPersonId'', of_opt tradesperson_id),
                    (''customerId'', JStr customer_id),
                    (''slot'', JStr (isoformat dt)),
                    (''description'', of_opt description)]
             in (case put_item ''bookingId'' bookings_index_keys (bookings_table st) booking of
                   Inl e \<Rightarrow> (Inl e, st)
                 | Inr tbl \<Rightarrow>
                     let st' = st\<lparr>bookings_table := tbl\<rparr>
                     in (case get_item ''tradesPersonId'' (tradesperson_table st')
                                (of_opt tradesperson_id) of
                           Inl e \<Rightarrow> (Inl e, st')
                         | Inr tradesperson_response \<Rightarrow>
                             let tradesperson_details = item_or_empty tradesperson_response
                             in (Inr (result 200 (dict_of
                                   [(''message'', JStr ''Booking created successfully''),
                                    (''bookingId'', JStr booking_id),
                                    (''tradesPersonName'',
                                     jget_default tradesperson_details ''name'' (JStr ''Unknown'')),
                                    (''slot'', of_opt slot),
                                    (''description'', of_opt description)])), st'))))"

definition register_customer ::
  "store \<Rightarrow> string \<Rightarrow> string dict \<Rightarrow> (error + response) \<times> store" where
  "register_customer st customer_id params =
     (let name = dict_get params ''name'';
          city = dict_get params ''city''
      in case put_item ''customerId'' [] (customers_table st)
                (dict_of [(''customerId'', JStr customer_id), (''name'', of_opt name),
                          (''city'', of_opt city)]) of
           Inl e \<Rightarrow> (Inl e, st)
         | Inr tbl \<Rightarrow>
             (Inr (result 200 (dict_of
                [(''message'', JStr ''Customer registered successfully''),
                 (''name'', of_opt name),
                 (''city'', of_opt city)])), st\<lparr>customers_table := tbl\<rparr>))"

definition get_customer_details :: "store \<Rightarrow> string \<Rightarrow> error + response" where
  "get_customer_details st customer_id =
     (case get_item ''customerId'' (customers_table st) (JStr customer_id) of
        Inl e \<Rightarrow> Inl e
      | Inr None \<Rightarrow> Inr (result 404 [(''error'', JStr ''Customer not found'')])
      | Inr (Some it) \<Rightarrow> Inr (result 200 [(''customer'', JObj it)]))"

text \<open>\<^verbatim>\<open>item.get("slot").replace("Z", "+00:00")\<close>: only a string has \<^verbatim>\<open>replace\<close>.\<close>

fun as_str :: "jval \<Rightarrow> string option" where
  "as_str (JStr s) = Some s"
| "as_str _ = None"

definition get_latest_booking :: "runtime \<Rightarrow> store \<Rightarrow> string \<Rightarrow> error + response" where
  "get_latest_booking rt st customer_id =
     (case query (bookings_table st) (KeyEq ''customerId'' (JStr customer_id)) of
        Inl e \<Rightarrow> Inl e
      | Inr [] \<Rightarrow> Inr (result 404 [(''error'', JStr ''No bookings found for this customer'')])
      | Inr (item # others) \<Rightarrow>
          (case get_item ''tradesPersonId'' (tradesperson_table st)
                  (jget item ''tradesPersonId'') of
             Inl e \<Rightarrow> Inl e
           | Inr tradesperson_response \<Rightarrow>
               let tradesperson_details = item_or_empty tradesperson_response
               in (case parse_slot rt (as_str (jget item ''slot'')) of
                     Inl e \<Rightarrow> Inl e
                   | Inr dt \<Rightarrow>
                       let booking_date = strftime_ymd_hms dt;
                           enhanced_booking = dict_of
                             [(''bookingId'', jget item ''bookingId''),
                              (''tradesPersonName'',
                               jget_default tradesperson_details ''name'' (JStr ''Unknown'')),
                              (''tradesPersonTrade'',
                               jget_default tradesperson_details ''trade'' (JStr ''Unknown'')),
                              (''bookingDateTime'', JStr booking_date),
                              (''description'', jget item ''description'')]
                       in Inr (result 200 [(''booking'', JObj enhanced_booking)]))))"

definition cancel_booking :: "store \<Rightarrow> string dict \<Rightarrow> (error + response) \<times> store" where
  "cancel_booking st params =
     (let booking_id = dict_get params ''bookingId''
      in case get_item ''bookingId'' (bookings_table st) (of_opt booking_id) of
           Inl e \<Rightarrow> (Inl e, st)
         | Inr None \<Rightarrow> (Inr (result 404 [(''error'', JStr ''Booking not found'')]), st)
         | Inr (Some booking) \<Rightarrow>
             (case get_item ''tradesPersonId'' (tradesperson_table st)
                     (jget booking ''tradesPersonId'') of
                Inl e \<Rightarrow> (Inl e, st)
              | Inr tradesperson_response \<Rightarrow>
                  let tradesperson_details = item_or_empty tradesperson_response
                  in (case delete_item ''bookingId'' (bookings_table st) (of_opt booking_id) of
                        Inl e \<Rightarrow> (Inl e, st)
                      | Inr tbl \<Rightarrow>
                          (Inr (result 200
                             (dict_set
                                (dict_update
                                   (dict_update
                                      (dict_of [(''message'', JStr ''Booking cancelled successfully'')])
                                      booking)
                                   tradesperson_details)
                                ''status'' (JStr ''CANCELLED''))),
                           st\<lparr>bookings_table := tbl\<rparr>))))"

definition update_booking ::
  "runtime \<Rightarrow> store \<Rightarrow> string \<Rightarrow> string dict \<Rightarrow> (error + response) \<times> store" where
  "update_booking rt st customer_id params =
     (let booking_id = dict_get params ''bookingId'';
          slot = dict_get params ''slot''
      in case get_item ''bookingId'' (bookings_table st) (of_opt booking_id) of
           Inl e \<Rightarrow> (Inl e, st)
         | Inr None \<Rightarrow> (Inr (result 404 [(''error'', JStr ''Booking not found'')]), st)
         | Inr (Some booking) \<Rightarrow>
             if jget booking ''customerId'' \<noteq> JStr customer_id then
               (Inr (result 403 [(''error'', JStr ''Not authorized to update this booking'')]), st)
             else
               (case parse_slot rt slot of
                  Inl e \<Rightarrow> (Inl e, st)
                | Inr dt \<Rightarrow>
                    let new_slot = isoformat dt
                    in (case update_item ''bookingId'' (bookings_table st) (of_opt booking_id)
                               ''slot'' (JStr new_slot) of
                          Inl e \<Rightarrow> (Inl e, st)
                        | Inr tbl \<Rightarrow>
                            let st' = st\<lparr>bookings_table := tbl\<rparr>
                            in (case get_item ''tradesPersonId'' (tradesperson_table st')
                                       (jget booking ''tradesPersonId'') of
                                  Inl e \<Rightarrow> (Inl e, st')
                                | Inr tradesperson_response \<Rightarrow>
                                    let tradesperson_details = item_or_empty tradesperson_response
                                    in (Inr (result 200 (dict_of
                                          [(''message'', JStr ''Booking updated successfully''),
                                           (''bookingId'', of_opt booking_id),
                                           (''tradesPersonName'',
                                            jget_default tradesperson_details ''name''
                                              (JStr ''Unknown'')),
                                           (''oldSlot'', jget booking ''slot''),
                                           (''newSlot'', JStr new_slot),
                                           (''description'', jget booking ''description'')])),
                                        st')))))"

definition get_current_date_time :: "runtime \<Rightarrow> response" where
  "get_current_date_time rt =
     (let now = datetime_now rt;
          formatted_date = strftime_long now
      in result 200 (dict_of
           [(''currentDateTime'', JStr (isoformat_sep '' '' now)),
            (''currentDateTimeISO'', JStr (isoformat now)),
            (''currentTimestamp'', JInt (int (epoch_seconds rt))),
            (''formattedDate'', JStr formatted_date)]))"

section \<open>The request and the response envelope\<close>

text \<open>
  The request of the agent runtime: the action group, the API path and the HTTP method
  are strings, the two attribute mappings map strings to strings, and the request body
  lists its properties under a content type, each with a name and a string value. Every
  field may be missing, which \<^verbatim>\<open>event.get\<close> turns into \<^verbatim>\<open>None\<close> or into the default it
  is given.
\<close>

record property =
  pname :: string
  ptype :: string
  pvalue :: string

record media =
  properties :: "property list option"

record request_body =
  content :: "media dict option"

record event =
  actionGroup :: "string option"
  apiPath :: "string option"
  httpMethod :: "string option"
  sessionAttributes :: "string dict option"
  promptSessionAttributes :: "string dict option"
  requestBody :: "request_body option"

text \<open>\<^verbatim>\<open>event.get("sessionAttributes", {}).get("phone-number", "00000")\<close>\<close>

definition customer_id_of :: "event \<Rightarrow> string" where
  "customer_id_of ev =
     (case sessionAttributes ev of
        None \<Rightarrow> ''00000''
      | Some sa \<Rightarrow> (case dict_get sa ''phone-number'' of None \<Rightarrow> ''00000'' | Some p \<Rightarrow> p))"

text \<open>
  The properties of the request body under \<^verbatim>\<open>application/json\<close>; the empty list when
  any level is missing or empty.
\<close>

definition post_parameters :: "event \<Rightarrow> property list" where
  "post_parameters ev =
     (case requestBody ev of
        None \<Rightarrow> []
      | Some rb \<Rightarrow>
          (case content rb of
             None \<Rightarrow> []
           | Some c \<Rightarrow>
               (case dict_get c ''application/json'' of
                  None \<Rightarrow> []
                | Some m \<Rightarrow> (case properties m of None \<Rightarrow> [] | Some ps \<Rightarrow> ps))))"

text \<open>\<^verbatim>\<open>{prop["name"]: prop["value"] for prop in post_parameters}\<close>\<close>

definition post_params :: "event \<Rightarrow> string dict" where
  "post_params ev = dict_of (map (\<lambda>prop. (pname prop, pvalue prop)) (post_parameters ev))"

definition attrs :: "string dict option \<Rightarrow> jval dict" where
  "attrs a = (case a of None \<Rightarrow> [] | Some d \<Rightarrow> map (\<lambda>(k, v). (k, JStr v)) d)"

text \<open>The response envelope, built the same way on both paths of the handler.\<close>

definition api_response :: "event \<Rightarrow> jval \<Rightarrow> jval \<Rightarrow> jval dict \<Rightarrow> jval" where
  "api_response ev http_status_code body prompt_session_attributes =
     (let response_body_formatted =
            dict_of [(''application/json'', JObj (dict_of [(''body'', body)]))];
          action_response = dict_of
            [(''actionGroup'', of_opt (actionGroup ev)),
             (''apiPath'', of_opt (apiPath ev)),
             (''httpMethod'', of_opt (httpMethod ev)),
             (''httpStatusCode'', http_status_code),
             (''responseBody'', JObj response_body_formatted)];
          session_attributes = attrs (sessionAttributes ev)
      in JObj (dict_of
           [(''messageVersion'', JStr ''1.0''),
            (''response'', JObj action_response),
            (''sessionAttributes'', JObj session_attributes),
            (''promptSessionAttributes'', JObj prompt_session_attributes)]))"

text \<open>\<^verbatim>\<open>response_body.get("statusCode", 200)\<close>\<close>

definition status_of :: "response \<Rightarrow> jval" where
  "status_of response_body = jget_default response_body ''statusCode'' (JInt 200)"

text \<open>
  The name and the city that the routes of \<^verbatim>\<open>/get-customer-details\<close> and
  \<^verbatim>\<open>/register-customer\<close> read out of a dictionary by subscription, as the entries they add
  to the prompt session attributes.
\<close>

definition name_and_city :: "jval \<Rightarrow> error + jval dict" where
  "name_and_city d =
     (case subscript d ''name'' of
        Inl e \<Rightarrow> Inl e
      | Inr n \<Rightarrow>
          (case subscript d ''city'' of
             Inl e \<Rightarrow> Inl e
           | Inr c \<Rightarrow> Inr (dict_of [(''customerName'', n), (''customerCity'', c)])))"

text \<open>
  The routing of the handler: the response body, the status code and the additional
  prompt session attributes of the operation, or the exception it raised, and the store
  afterwards.
\<close>

definition dispatch ::
  "runtime \<Rightarrow> store \<Rightarrow> event \<Rightarrow> (error + response \<times> jval \<times> jval dict) \<times> store" where
  "dispatch rt st ev =
     (let api_path = apiPath ev;
          customer_id = customer_id_of ev;
          params = post_params ev
      in if api_path = Some ''/get-current-datetime'' then
           (let response_body = get_current_date_time rt
            in (Inr (response_body, status_of response_body, []), st))
         else if api_path = Some ''/get-customer-details'' then
           (case get_customer_details st customer_id of
              Inl e \<Rightarrow> (Inl e, st)
            | Inr response_body \<Rightarrow>
                let http_status_code = status_of response_body
                in if http_status_code = JInt 200 then
                     (case subscript (JObj response_body) ''body'' of
                        Inl e \<Rightarrow> (Inl e, st)
                      | Inr b \<Rightarrow>
                          (case subscript b ''customer'' of
                             Inl e \<Rightarrow> (Inl e, st)
                           | Inr c \<Rightarrow>
                               if truthy c then
                                 (case name_and_city c of
                                    Inl e \<Rightarrow> (Inl e, st)
                                  | Inr additional \<Rightarrow>
                                      (Inr (response_body, http_status_code, additional), st))
                               else (Inr (response_body, http_status_code, []), st)))
                   else (Inr (response_body, http_status_code, []), st))
         else if api_path = Some ''/register-customer'' then
           (case register_customer st customer_id params of
              (Inl e, st') \<Rightarrow> (Inl e, st')
            | (Inr response_body, st') \<Rightarrow>
                (case subscript (JObj response_body) ''body'' of
                   Inl e \<Rightarrow> (Inl e, st')
                 | Inr b \<Rightarrow>
                     (case name_and_city b of
                        Inl e \<Rightarrow> (Inl e, st')
                      | Inr additional \<Rightarrow>
                          (Inr (response_body, status_of response_body, additional), st'))))
         else if api_path = Some ''/search-trades-persons'' then
           (case search_trades_persons st params of
              Inl e \<Rightarrow> (Inl e, st)
            | Inr response_body \<Rightarrow> (Inr (response_body, status_of response_body, []), st))
         else if api_path = Some ''/check-availability'' then
           (case check_availability rt st params of
              Inl e \<Rightarrow> (Inl e, st)
            | Inr response_body \<Rightarrow> (Inr (response_body, status_of response_body, []), st))
         else if api_path = Some ''/create-booking'' then
           (case create_booking rt st customer_id params of
              (Inl e, st') \<Rightarrow> (Inl e, st')
            | (Inr response_body, st') \<Rightarrow>
                (Inr (response_body, status_of response_body, []), st'))
         else if api_path = Some ''/get-latest-booking'' then
           (case get_latest_booking rt st customer_id of
              Inl e \<Rightarrow> (Inl e, st)
            | Inr response_body \<Rightarrow> (Inr (response_body, status_of response_body, []), st))
         else if api_path = Some ''/cancel-booking'' then
           (case cancel_booking st params of
              (Inl e, st') \<Rightarrow> (Inl e, st')
            | (Inr response_body, st') \<Rightarrow>
                (Inr (response_body, status_of response_body, []), st'))
         else if api_path = Some ''/update-booking'' then
           (case update_booking rt st customer_id params of
              (Inl e, st') \<Rightarrow> (Inl e, st')
            | (Inr response_body, st') \<Rightarrow>
                (Inr (response_body, status_of response_body, []), st'))
         else
           (Inr ([(''error'', JStr (''Unsupported operation: '' @ py_str api_path))],
                 JInt 400, []), st))"

text \<open>
  The handler: the envelope of the routed operation, with the caller's identity and the
  additional attributes merged into the prompt session attributes of the request, or the
  fixed envelope of the \<^verbatim>\<open>except\<close> clause when anything was raised. The updates
  of the prompt session attributes come after every statement of the \<^verbatim>\<open>try\<close> block
  that can raise, so the \<^verbatim>\<open>except\<close> clause reads the attributes as the request
  carried them.
\<close>

definition handler :: "runtime \<Rightarrow> store \<Rightarrow> event \<Rightarrow> jval \<times> store" where
  "handler rt st ev =
     (case dispatch rt st ev of
        (Inr (response_body, http_status_code, additional_prompt_session_attributes), st') \<Rightarrow>
          let customer_id = customer_id_of ev;
              prompt_session_attributes =
                dict_update
                  (dict_set
                     (dict_set (attrs (promptSessionAttributes ev))
                        ''customerId'' (JStr customer_id))
                     ''customerPhoneNumber'' (JStr customer_id))
                  additional_prompt_session_attributes
          in (api_response ev http_status_code
                (jget_default response_body ''body'' (JObj response_body))
                prompt_session_attributes, st')
      | (Inl e, st') \<Rightarrow>
          (api_response ev (JInt 500) (JObj [(''error'', JStr ''Internal server error'')])
             (attrs (promptSessionAttributes ev)), st'))"

section \<open>What the specification observes\<close>

text \<open>
  The fixed shape of a response: the version marker, the response block with the echoed
  identifiers, the status code and the body under its content type, and the two attribute
  mappings.
\<close>

definition envelope :: "jval \<Rightarrow> jval \<Rightarrow> jval \<Rightarrow> jval \<Rightarrow> jval \<Rightarrow> jval dict \<Rightarrow> jval dict \<Rightarrow> jval" where
  "envelope action_group api_path http_method code body session prompt =
     JObj [(''messageVersion'', JStr ''1.0''),
           (''response'', JObj [(''actionGroup'', action_group),
                                (''apiPath'', api_path),
                                (''httpMethod'', http_method),
                                (''httpStatusCode'', code),
                                (''responseBody'',
                                 JObj [(''application/json'', JObj [(''body'', body)])])]),
           (''sessionAttributes'', JObj session),
           (''promptSessionAttributes'', JObj prompt)]"

text \<open>The value found by following a path of keys into nested dictionaries.\<close>

fun lookup_path :: "jval \<Rightarrow> string list \<Rightarrow> jval option" where
  "lookup_path v [] = Some v"
| "lookup_path (JObj d) (k # ks) =
     (case dict_get d k of None \<Rightarrow> None | Some v \<Rightarrow> lookup_path v ks)"
| "lookup_path v (k # ks) = None"

definition status_code :: "jval \<Rightarrow> jval option" where
  "status_code r = lookup_path r [''response'', ''httpStatusCode'']"

definition response_body :: "jval \<Rightarrow> jval option" where
  "response_body r = lookup_path r [''response'', ''responseBody'', ''application/json'', ''body'']"

definition prompt_attribute :: "jval \<Rightarrow> string \<Rightarrow> jval option" where
  "prompt_attribute r k = lookup_path r [''promptSessionAttributes'', k]"

text \<open>The nine operation paths the handler routes.\<close>

definition known_paths :: "string list" where
  "known_paths =
     [''/get-current-datetime'', ''/get-customer-details'', ''/register-customer'',
      ''/search-trades-persons'', ''/check-availability'', ''/create-booking'',
      ''/get-latest-booking'', ''/cancel-booking'', ''/update-booking'']"

text \<open>A handler result of the form \<^verbatim>\<open>{"statusCode": code, "body": {...}}\<close>.\<close>

definition is_result :: "response \<Rightarrow> bool" where
  "is_result rb = (\<exists>code body. rb = result code body)"

definition is_reply :: "response \<times> jval \<times> jval dict \<Rightarrow> bool" where
  "is_reply r =
     (case r of (rb, code, add) \<Rightarrow>
        (\<exists>c b. code = JInt c \<and> jget_default rb ''body'' (JObj rb) = JObj b))"

section \<open>Example data\<close>

text \<open>
  A runtime, stores and requests on which the properties below are exercised. The runtime
  reads the clock at half past eight on 15 March 2024 and parses with
  \<open>strict_fromisoformat\<close>.
\<close>

definition example_runtime :: runtime where
  "example_runtime =
     \<lparr>wall = \<lparr>year = 2024, month = 3, day = 15, hour = 8, minute = 30, second = 0,
              microsecond = 0, tzinfo = None\<rparr>,
      epoch_seconds = 1710491400,
      fromisoformat = strict_fromisoformat\<rparr>"

definition empty_store :: store where
  "empty_store = \<lparr>customers_table = [], tradesperson_table = [], bookings_table = []\<rparr>"

text \<open>A request for an operation, from a caller's phone number, with named parameters.\<close>

definition request :: "string \<Rightarrow> string \<Rightarrow> (string \<times> string) list \<Rightarrow> event" where
  "request path phone props =
     \<lparr>actionGroup = Some ''plumbing-actions'',
      apiPath = Some path,
      httpMethod = Some ''POST'',
      sessionAttributes = Some [(''phone-number'', phone)],
      promptSessionAttributes = Some [(''language'', ''en'')],
      requestBody = Some \<lparr>content = Some [(''application/json'',
        \<lparr>properties =
           Some (map (\<lambda>(n, v). \<lparr>pname = n, ptype = ''string'', pvalue = v\<rparr>) props)\<rparr>)]\<rparr>\<rparr>"

text \<open>The record that \<^verbatim>\<open>register_customer\<close> writes for an identity and its parameters.\<close>

definition customer_record :: "string \<Rightarrow> string dict \<Rightarrow> item" where
  "customer_record customer_id params =
     [(''customerId'', JStr customer_id),
      (''name'', of_opt (dict_get params ''name'')),
      (''city'', of_opt (dict_get params ''city''))]"

text \<open>A table without the items stored under a key.\<close>

definition without_key :: "string \<Rightarrow> jval \<Rightarrow> table \<Rightarrow> table" where
  "without_key pk k tbl = filter (\<lambda>x. \<not> has_key pk k x) tbl"












text \<open>The id that \<^verbatim>\<open>create_booking\<close> generates at a clock reading.\<close>

definition booking_id_at :: "runtime \<Rightarrow> string" where
  "booking_id_at rt = ''b'' @ last5 (str_nat (epoch_seconds rt))"



section \<open>Properties\<close>

lemma api_response_envelope:
  "api_response ev code body prompt =
     envelope (of_opt (actionGroup ev)) (of_opt (apiPath ev)) (of_opt (httpMethod ev))
       code body (attrs (sessionAttributes ev)) prompt"
  by (simp add: api_response_def envelope_def dict_of_def Let_def)

lemma status_of_result [simp]: "status_of (result code body) = JInt code"
  by (simp add: status_of_def result_def dict_of_def jget_default_def)

lemma body_of_result [simp]: "jget_default (result code body) ''body'' d = JObj body"
  by (simp add: result_def dict_of_def jget_default_def)

lemma is_result_result [simp]: "is_result (result code body)"
  by (auto simp: is_result_def)

lemma get_customer_details_result:
  "get_customer_details st c = Inr rb \<Longrightarrow> is_result rb"
  by (auto simp: get_customer_details_def split: sum.splits option.splits)

lemma search_trades_persons_result:
  "search_trades_persons st p = Inr rb \<Longrightarrow> is_result rb"
  by (auto simp: search_trades_persons_def Let_def split: sum.splits option.splits)

lemma check_availability_result:
  "check_availability rt st p = Inr rb \<Longrightarrow> is_result rb"
  by (auto simp: check_availability_def Let_def split: sum.splits option.splits)

lemma get_latest_booking_result:
  "get_latest_booking rt st c = Inr rb \<Longrightarrow> is_result rb"
  by (auto simp: get_latest_booking_def Let_def split: sum.splits option.splits list.splits)

lemma create_booking_result:
  "create_booking rt st c p = (Inr rb, st') \<Longrightarrow> is_result rb"
  by (auto simp: create_booking_def Let_def split: sum.splits option.splits)

lemma register_customer_result:
  "register_customer st c p = (Inr rb, st') \<Longrightarrow> is_result rb"
  by (auto simp: register_customer_def Let_def split: sum.splits option.splits)

lemma cancel_booking_result:
  "cancel_booking st p = (Inr rb, st') \<Longrightarrow> is_result rb"
  by (auto simp: cancel_booking_def Let_def split: sum.splits option.splits)

lemma update_booking_result:
  "update_booking rt st c p = (Inr rb, st') \<Longrightarrow> is_result rb"
  by (auto simp: update_booking_def Let_def split: sum.splits option.splits if_splits)

lemma get_current_date_time_result: "is_result (get_current_date_time rt)"
  by (simp add: get_current_date_time_def Let_def)

lemma is_reply_result: "is_result rb \<Longrightarrow> is_reply (rb, status_of rb, add)"
  by (auto simp: is_reply_def is_result_def)

lemma dispatch_reply:
  assumes "dispatch rt st ev = (Inr r, st')"
  shows "is_reply r"
proof -
  consider
      (a) "apiPath ev = Some ''/get-current-datetime''"
    | (b) "apiPath ev = Some ''/get-customer-details''"
    | (c) "apiPath ev = Some ''/register-customer''"
    | (d) "apiPath ev = Some ''/search-trades-persons''"
    | (e) "apiPath ev = Some ''/check-availability''"
    | (f) "apiPath ev = Some ''/create-booking''"
    | (g) "apiPath ev = Some ''/get-latest-booking''"
    | (h) "apiPath ev = Some ''/cancel-booking''"
    | (i) "apiPath ev = Some ''/update-booking''"
    | (j) "apiPath ev \<notin> Some ` {''/get-current-datetime'', ''/get-customer-details'',
            ''/register-customer'', ''/search-trades-persons'', ''/check-availability'',
            ''/create-booking'', ''/get-latest-booking'', ''/cancel-booking'', ''/update-booking''}"
    by blast
  then show ?thesis
  proof cases
    case a
    with assms show ?thesis
      by (auto simp: dispatch_def Let_def intro!: is_reply_result get_current_date_time_result)
  next
    case b
    with assms obtain rb add where
      "get_customer_details st (customer_id_of ev) = Inr rb" "r = (rb, status_of rb, add)"
      by (auto simp: dispatch_def Let_def split: sum.splits if_splits)
    then show ?thesis
      by (auto intro!: is_reply_result dest: get_customer_details_result)
  next
    case c
    with assms show ?thesis
      by (auto simp: dispatch_def Let_def split: sum.splits prod.splits
               intro!: is_reply_result dest: register_customer_result)
  next
    case d
    with assms show ?thesis
      by (auto simp: dispatch_def Let_def split: sum.splits
               intro!: is_reply_result dest: search_trades_persons_result)
  next
    case e
    with assms show ?thesis
      by (auto simp: dispatch_def Let_def split: sum.splits
               intro!: is_reply_result dest: check_availability_result)
  next
    case f
    with assms show ?thesis
      by (auto simp: dispatch_def Let_def split: sum.splits prod.splits
               intro!: is_reply_result dest: create_booking_result)
  next
    case g
    with assms show ?thesis
      by (auto simp: dispatch_def Let_def split: sum.splits
               intro!: is_reply_result dest: get_latest_booking_result)
  next
    case h
    with assms show ?thesis
      by (auto simp: dispatch_def Let_def split: sum.splits prod.splits
               intro!: is_reply_result dest: cancel_booking_result)
  next
    case i
    with assms show ?thesis
      by (auto simp: dispatch_def Let_def split: sum.splits prod.splits
               intro!: is_reply_result dest: update_booking_result)
  next
    case j
    with assms show ?thesis
      by (auto simp: dispatch_def Let_def is_reply_def jget_default_def)
  qed
qed

text \<open>
  C2: on every path of the handler (each of the nine operations, an unknown operation, and
  the path of an uncaught exception) the response has one fixed shape: the version marker
  \<open>1.0\<close>, a response block with the action group, the API path and the HTTP method of
  the request, an integer status code and a body dictionary under the
  \<open>application/json\<close> key, the session attributes of the request, and a mapping of prompt
  session attributes. Only the status code, the body and the prompt attributes vary.
\<close>

theorem envelope_shape:
  "\<exists>code body prompt.
     fst (handler rt st ev) =
       envelope (of_opt (actionGroup ev)) (of_opt (apiPath ev)) (of_opt (httpMethod ev))
         (JInt code) (JObj body) (attrs (sessionAttributes ev)) prompt"
proof (cases "dispatch rt st ev")
  case (Pair r st')
  show ?thesis
  proof (cases r)
    case (Inl e)
    with Pair have "fst (handler rt st ev) =
        envelope (of_opt (actionGroup ev)) (of_opt (apiPath ev)) (of_opt (httpMethod ev))
          (JInt 500) (JObj [(''error'', JStr ''Internal server error'')])
          (attrs (sessionAttributes ev)) (attrs (promptSessionAttributes ev))"
      by (simp add: handler_def api_response_envelope)
    then show ?thesis by blast
  next
    case (Inr reply)
    with Pair have "is_reply reply" by (auto dest: dispatch_reply)
    then obtain rb c add b where
      "reply = (rb, JInt c, add)" "jget_default rb ''body'' (JObj rb) = JObj b"
      by (auto simp: is_reply_def)
    with Pair Inr have "fst (handler rt st ev) =
        envelope (of_opt (actionGroup ev)) (of_opt (apiPath ev)) (of_opt (httpMethod ev))
          (JInt c) (JObj b) (attrs (sessionAttributes ev))
          (dict_update
             (dict_set
                (dict_set (attrs (promptSessionAttributes ev)) ''customerId''
                   (JStr (customer_id_of ev)))
                ''customerPhoneNumber'' (JStr (customer_id_of ev)))
             add)"
      by (simp add: handler_def api_response_envelope Let_def)
    then show ?thesis by blast
  qed
qed


subsection \<open>Dictionaries\<close>

lemma dict_get_map_of: "dict_get d k = map_of d k"
  by (induction d) auto






subsection \<open>Reading a response\<close>

lemma status_code_envelope [simp]:
  "status_code (envelope ag ap hm code body sa pa) = Some code"
  by (simp add: status_code_def envelope_def)

lemma response_body_envelope [simp]:
  "response_body (envelope ag ap hm code body sa pa) = Some body"
  by (simp add: response_body_def envelope_def)

lemma prompt_attribute_envelope [simp]:
  "prompt_attribute (envelope ag ap hm code body sa pa) k = dict_get pa k"
  by (cases "dict_get pa k") (simp_all add: prompt_attribute_def envelope_def)

lemma post_params_request:
  "post_params (request path phone props) = dict_of props"
  by (simp add: post_params_def post_parameters_def request_def comp_def case_prod_unfold)

lemma customer_id_of_request [simp]: "customer_id_of (request path phone props) = phone"
  by (simp add: customer_id_of_def request_def)

lemma apiPath_request [simp]: "apiPath (request path phone props) = Some path"
  by (simp add: request_def)

subsection \<open>Uncaught exceptions\<close>

text \<open>
  C3: when the routed operation raises, the handler does not propagate the exception: it
  returns the envelope with status 500 and the fixed body \<open>Internal server error\<close>, which
  echoes the action group, the API path and the HTTP method of the request and passes its
  session attributes and its prompt session attributes through as they came.
\<close>

theorem uncaught_fault_gives_500:
  assumes "dispatch rt st ev = (Inl e, st')"
  shows "handler rt st ev =
           (envelope (of_opt (actionGroup ev)) (of_opt (apiPath ev)) (of_opt (httpMethod ev))
              (JInt 500) (JObj [(''error'', JStr ''Internal server error'')])
              (attrs (sessionAttributes ev)) (attrs (promptSessionAttributes ev)), st')"
  using assms by (simp add: handler_def api_response_envelope)

text \<open>A store fault: cancelling without a booking id makes the store reject the key.\<close>

theorem uncaught_fault_gives_500_witness:
  "dispatch example_runtime empty_store (request ''/cancel-booking'' ''+15550100'' []) =
     (Inl ClientError, empty_store) \<and>
   handler example_runtime empty_store (request ''/cancel-booking'' ''+15550100'' []) =
     (JObj [(''messageVersion'', JStr ''1.0''),
            (''response'',
             JObj [(''actionGroup'', JStr ''plumbing-actions''),
                   (''apiPath'', JStr ''/cancel-booking''),
                   (''httpMethod'', JStr ''POST''),
                   (''httpStatusCode'', JInt 500),
                   (''responseBody'',
                    JObj [(''application/json'',
                           JObj [(''body'', JObj [(''error'', JStr ''Internal server error'')])])])]),
            (''sessionAttributes'', JObj [(''phone-number'', JStr ''+15550100'')]),
            (''promptSessionAttributes'', JObj [(''language'', JStr ''en'')])],
      empty_store)"
proof -
  have d: "dispatch example_runtime empty_store (request ''/cancel-booking'' ''+15550100'' []) =
             (Inl ClientError, empty_store)"
    by (simp add: dispatch_def post_params_request dict_of_def cancel_booking_def get_item_def)
  show ?thesis
    using d uncaught_fault_gives_500 [OF d]
    by (simp add: envelope_def request_def attrs_def)
qed

subsection \<open>Unknown operations\<close>

text \<open>
  C4: an operation path that is none of the nine known ones (a missing path included) is
  answered, without raising, with status 400 and a body whose error message is
  \<open>Unsupported operation:\<close> followed by the path; the store is left as it was.
\<close>

theorem unsupported_operation:
  assumes "apiPath ev \<notin> Some ` set known_paths"
  shows "dispatch rt st ev =
           (Inr ([(''error'', JStr (''Unsupported operation: '' @ py_str (apiPath ev)))],
                 JInt 400, []), st) \<and>
         status_code (fst (handler rt st ev)) = Some (JInt 400) \<and>
         response_body (fst (handler rt st ev)) =
           Some (JObj [(''error'', JStr (''Unsupported operation: '' @ py_str (apiPath ev)))]) \<and>
         snd (handler rt st ev) = st"
proof -
  have d: "dispatch rt st ev =
             (Inr ([(''error'', JStr (''Unsupported operation: '' @ py_str (apiPath ev)))],
                   JInt 400, []), st)"
    using assms by (simp add: dispatch_def known_paths_def Let_def)
  then show ?thesis
    by (simp add: handler_def api_response_envelope jget_default_def Let_def)
qed

theorem unsupported_operation_witness:
  "status_code (fst (handler example_runtime empty_store
                       (request ''/delete-customer'' ''+15550100'' []))) = Some (JInt 400) \<and>
   response_body (fst (handler example_runtime empty_store
                         (request ''/delete-customer'' ''+15550100'' []))) =
     Some (JObj [(''error'', JStr ''Unsupported operation: /delete-customer'')]) \<and>
   snd (handler example_runtime empty_store (request ''/delete-customer'' ''+15550100'' [])) =
     empty_store"
  using unsupported_operation [of "request ''/delete-customer'' ''+15550100'' []"
          example_runtime empty_store]
  by (simp add: known_paths_def)

subsection \<open>Missing parameters\<close>

text \<open>
  C10: a search request without \<open>trade\<close> or without \<open>city\<close>, and an availability request
  without \<open>startSlot\<close> or without \<open>endSlot\<close>, make the operation raise; the response is the
  envelope with status 500, not a bad-request result, and the store is left as it was.
\<close>

theorem missing_parameter_gives_500:
  assumes "(apiPath ev = Some ''/search-trades-persons'' \<and>
            (dict_get (post_params ev) ''trade'' = None \<or>
             dict_get (post_params ev) ''city'' = None)) \<or>
           (apiPath ev = Some ''/check-availability'' \<and>
            (dict_get (post_params ev) ''startSlot'' = None \<or>
             dict_get (post_params ev) ''endSlot'' = None))"
  shows "(\<exists>e. dispatch rt st ev = (Inl e, st)) \<and>
         handler rt st ev =
           (envelope (of_opt (actionGroup ev)) (of_opt (apiPath ev)) (of_opt (httpMethod ev))
              (JInt 500) (JObj [(''error'', JStr ''Internal server error'')])
              (attrs (sessionAttributes ev)) (attrs (promptSessionAttributes ev)), st)"
proof -
  from assms have "\<exists>e. dispatch rt st ev = (Inl e, st)"
  proof (elim disjE conjE)
    assume "apiPath ev = Some ''/search-trades-persons''"
      and "dict_get (post_params ev) ''trade'' = None"
    then show ?thesis
      by (simp add: dispatch_def Let_def search_trades_persons_def)
  next
    assume "apiPath ev = Some ''/search-trades-persons''"
      and "dict_get (post_params ev) ''city'' = None"
    then show ?thesis
      by (simp add: dispatch_def Let_def search_trades_persons_def split: option.splits)
  next
    assume "apiPath ev = Some ''/check-availability''"
      and "dict_get (post_params ev) ''startSlot'' = None"
    then show ?thesis
      by (simp add: dispatch_def Let_def check_availability_def)
  next
    assume "apiPath ev = Some ''/check-availability''"
      and "dict_get (post_params ev) ''endSlot'' = None"
    then show ?thesis
      by (simp add: dispatch_def Let_def check_availability_def parse_slot_def
               split: option.splits sum.splits)
  qed
  then obtain e where d: "dispatch rt st ev = (Inl e, st)" ..
  then show ?thesis
    by (simp add: handler_def api_response_envelope)
qed

theorem missing_parameter_gives_500_witness:
  "status_code (fst (handler example_runtime empty_store
     (request ''/check-availability'' ''+15550100''
        [(''tradesPersonId'', ''tp1''), (''startSlot'', ''2024-03-15T09:00:00'')]))) =
     Some (JInt 500) \<and>
   status_code (fst (handler example_runtime empty_store
     (request ''/search-trades-persons'' ''+15550100'' [(''trade'', ''Plumber'')]))) =
     Some (JInt 500)"
  using
    missing_parameter_gives_500 [of "request ''/check-availability'' ''+15550100''
        [(''tradesPersonId'', ''tp1''), (''startSlot'', ''2024-03-15T09:00:00'')]"
        example_runtime empty_store]
    missing_parameter_gives_500 [of "request ''/search-trades-persons'' ''+15550100''
        [(''trade'', ''Plumber'')]" example_runtime empty_store]
  by (simp add: post_params_request dict_of_def)

subsection \<open>The record store\<close>

lemma find_append:
  "find P (xs @ ys) = (case find P xs of None \<Rightarrow> find P ys | Some x \<Rightarrow> Some x)"
  by (induction xs) auto

lemma find_without_key [simp]: "find (has_key pk k) (without_key pk k tbl) = None"
  by (simp add: without_key_def find_None_iff)

lemma find_put [simp]:
  "has_key pk k it \<Longrightarrow> find (has_key pk k) (without_key pk k tbl @ [it]) = Some it"
  by (simp add: find_append)

lemma filter_put [simp]:
  "has_key pk k it \<Longrightarrow> filter (has_key pk k) (without_key pk k tbl @ [it]) = [it]"
  by (simp add: without_key_def)

lemma filter_without_key [simp]: "filter (has_key pk k) (without_key pk k tbl) = []"
  by (simp add: without_key_def)

lemma without_key_put [simp]:
  "has_key pk k it \<Longrightarrow> without_key pk k (tbl @ [it]) = without_key pk k tbl"
  by (simp add: without_key_def)

lemma without_key_idem [simp]: "without_key pk k (without_key pk k tbl) = without_key pk k tbl"
  by (simp add: without_key_def)

lemma dict_get_result_body [simp]:
  "dict_get (result code body) ''body'' = Some (JObj body)"
  by (simp add: result_def dict_of_def)



lemma has_key_customer_record [simp]:
  "has_key ''customerId'' (JStr cid) (customer_record cid params)"
  by (simp add: has_key_def customer_record_def)


subsection \<open>Registering a customer\<close>






subsection \<open>Customer details\<close>







subsection \<open>Updating a booking\<close>




subsection \<open>Cancelling a booking\<close>




subsection \<open>Formatting and parsing decimal numerals\<close>














subsection \<open>Parsing what \<open>isoformat\<close> prints\<close>






















subsection \<open>What follows for any parser of the library\<close>








subsection \<open>Availability\<close>






lemma fromisoformat_example_runtime [simp]:
  "fromisoformat example_runtime = strict_fromisoformat"
  by (simp add: example_runtime_def)







subsection \<open>Creating a booking and reading it back\<close>

lemma booking_id_at_not_empty: "booking_id_at rt \<noteq> []"
  by (simp add: booking_id_at_def)
















end
